theory Spec2Isabelle
  imports Complex_Main
begin

section \<open>Python values common to the backend modules\<close>

text \<open>
  Audio samples are NumPy \<open>float64\<close> values. They are modelled as \<open>real\<close>:
  rounding is outside the model, and there is no infinity and no NaN among the
  values. Every exception the modelled code can raise is a constructor of
  \<open>py_error\<close>, and a function that can raise returns \<open>py_error + 'a\<close> with \<open>Inl\<close>
  for the exception.

  \<open>NotFinite\<close> is not an exception. NumPy does not raise when it divides by zero: it
  warns and goes on with \<open>nan\<close> or \<open>inf\<close>. The model has no such values, so a
  computation that would produce one stops with \<open>Inl NotFinite\<close>.
\<close>

datatype py_error =
  ValueError | ZeroDivisionError | IndexError | KeyError | OverflowError | QueueFull | NotFinite

subsection \<open>The range of \<open>float64\<close>\<close>




text \<open>Python's \<open>int(x)\<close> on a float truncates towards zero.\<close>

definition py_int :: "real \<Rightarrow> int" where
  "py_int r = (if 0 \<le> r then \<lfloor>r\<rfloor> else \<lceil>r\<rceil>)"

subsection \<open>\<open>queue.Queue\<close>\<close>

text \<open>
  \<open>queue.Queue(maxsize)\<close>: a FIFO whose \<open>maxsize \<le> 0\<close> means unbounded
  (\<open>queue.Queue()\<close> has \<open>maxsize = 0\<close>). \<open>put_nowait\<close> raises \<open>queue.Full\<close>
  exactly when \<open>0 < maxsize \<le> qsize\<close>, and appends at the tail otherwise.
\<close>

record 'a py_queue =
  maxsize :: int
  items :: "'a list"

definition new_queue :: "'a py_queue" where
  "new_queue = \<lparr>maxsize = 0, items = []\<rparr>"



section \<open>\<open>audio_processor.py\<close>: class \<open>AudioProcessor\<close>\<close>

text \<open>
  The fields of the object that the modelled methods read or write. The stream and
  thread handles are left out; \<open>stdout\<close> collects what \<open>print\<close> writes.
\<close>

record audio_processor =
  sample_rate :: int
  block_size :: int
  is_running :: bool
  input_queue :: "real list py_queue"
  output_queue :: "real list py_queue"
  pitch_shift :: real
  formant_shift :: real
  voice_profile :: string
  stdout :: "string list"

definition init :: "int \<Rightarrow> int \<Rightarrow> audio_processor" where
  "init sr bs =
     \<lparr>sample_rate = sr, block_size = bs, is_running = False,
      input_queue = new_queue, output_queue = new_queue,
      pitch_shift = 1, formant_shift = 1, voice_profile = ''original'', stdout = []\<rparr>"

text \<open>The dictionary local to \<open>set_voice_profile\<close>: name to (pitch_shift, formant_shift).\<close>

definition profiles :: "(string \<times> real \<times> real) list" where
  "profiles =
     [(''original'', 1, 1),
      (''male'', 8 / 10, 9 / 10),
      (''female'', 13 / 10, 11 / 10),
      (''child'', 15 / 10, 12 / 10),
      (''robot'', 1, 1),
      (''elderly'', 9 / 10, 95 / 100)]"

definition set_voice_profile :: "audio_processor \<Rightarrow> string \<Rightarrow> audio_processor" where
  "set_voice_profile s profile =
     (let s1 = s\<lparr>voice_profile := profile\<rparr>
      in case map_of profiles profile of
           Some (p, f) \<Rightarrow> s1\<lparr>pitch_shift := p, formant_shift := f\<rparr>
         | None \<Rightarrow> s1)"

subsection \<open>NumPy operations used by the processor\<close>

text \<open>
  \<open>np.max\<close> of a zero-size array raises \<open>ValueError\<close> (the reduction has no
  identity); otherwise it is the largest element.
\<close>

fun np_max :: "real list \<Rightarrow> py_error + real" where
  "np_max [] = Inl ValueError"
| "np_max (x # xs) = Inr (foldl max x xs)"

text \<open>
  \<open>np.linspace(start, stop, num, endpoint)\<close>: \<open>num\<close> evenly spaced points; a
  negative \<open>num\<close> raises \<open>ValueError\<close>. With the end point the step is
  \<open>(stop - start) / (num - 1)\<close> (a single point is \<open>start\<close>), without it
  \<open>(stop - start) / num\<close>.
\<close>

definition linspace :: "real \<Rightarrow> real \<Rightarrow> int \<Rightarrow> bool \<Rightarrow> py_error + real list" where
  "linspace start stop num endpoint =
     (if num < 0 then Inl ValueError
      else let d = (if endpoint then num - 1 else num)
           in Inr (map (\<lambda>i. if d \<le> 0 then start
                           else start + real i * ((stop - start) / real_of_int d))
                     [0..<nat num]))"

text \<open>
  \<open>np.interp(x, np.arange(n), fp)\<close> at one point \<open>x\<close>: \<open>fp\<close> holds the values at
  the sample points \<open>0, 1, ..., n - 1\<close>; outside that range the end values are kept,
  inside it the two neighbouring samples are joined by a line.
\<close>

definition interp_at :: "real list \<Rightarrow> real \<Rightarrow> real" where
  "interp_at fp x =
     (if x \<le> 0 then fp ! 0
      else if real (length fp) - 1 \<le> x then fp ! (length fp - 1)
      else let j = nat \<lfloor>x\<rfloor>
           in (fp ! (j + 1) - fp ! j) * (x - real j) + fp ! j)"

text \<open>An empty array of sample points makes \<open>np.interp\<close> raise \<open>ValueError\<close>.\<close>

definition interp_arange :: "real list \<Rightarrow> real list \<Rightarrow> py_error + real list" where
  "interp_arange xs fp = (if fp = [] then Inl ValueError else Inr (map (interp_at fp) xs))"

text \<open>
  The discrete Fourier transform that \<open>np.fft.fft\<close> and \<open>np.fft.ifft\<close> compute;
  both raise \<open>ValueError\<close> on zero data points.
\<close>

definition dft :: "complex list \<Rightarrow> complex list" where
  "dft xs =
     map (\<lambda>k. \<Sum>j<length xs. xs ! j * cis (- (2 * pi * real k * real j / real (length xs))))
       [0..<length xs]"

definition idft :: "complex list \<Rightarrow> complex list" where
  "idft xs =
     map (\<lambda>k. (\<Sum>j<length xs. xs ! j * cis (2 * pi * real k * real j / real (length xs)))
                / of_nat (length xs))
       [0..<length xs]"

definition np_fft :: "complex list \<Rightarrow> py_error + complex list" where
  "np_fft xs = (if xs = [] then Inl ValueError else Inr (dft xs))"

definition np_ifft :: "complex list \<Rightarrow> py_error + complex list" where
  "np_ifft xs = (if xs = [] then Inl ValueError else Inr (idft xs))"

text \<open>
  \<open>np.fft.fftfreq(n, 1 / rate)\<close> for \<open>n > 0\<close>: bin \<open>i\<close> has frequency
  \<open>i * rate / n\<close> for \<open>i \<le> (n - 1) div 2\<close> and \<open>(i - n) * rate / n\<close> above.
  The Python expression \<open>1 / rate\<close> raises \<open>ZeroDivisionError\<close> for \<open>rate = 0\<close>.
\<close>

definition fftfreq :: "nat \<Rightarrow> int \<Rightarrow> py_error + real list" where
  "fftfreq n rate =
     (if rate = 0 then Inl ZeroDivisionError
      else Inr (map (\<lambda>i. (if i \<le> (n - 1) div 2 then real i else real i - real n)
                            * real_of_int rate / real n)
                  [0..<n]))"

text \<open>
  \<open>a[i] = v\<close> on an array: a negative index counts from the end, an index outside
  \<open>-len \<le> i < len\<close> raises \<open>IndexError\<close>.
\<close>

definition setitem :: "'a list \<Rightarrow> int \<Rightarrow> 'a \<Rightarrow> py_error + 'a list" where
  "setitem a i v =
     (let n = int (length a); j = (if i < 0 then n + i else i)
      in if 0 \<le> j \<and> j < n then Inr (a[nat j := v]) else Inl IndexError)"

text \<open>
  \<open>a / d\<close> for an array \<open>a\<close> and a scalar \<open>d\<close>. A zero divisor makes every element
  \<open>nan\<close> or \<open>inf\<close> (an empty array stays empty).
\<close>

definition np_divide :: "real list \<Rightarrow> real \<Rightarrow> py_error + real list" where
  "np_divide a d = (if d = 0 \<and> a \<noteq> [] then Inl NotFinite else Inr (map (\<lambda>x. x / d) a))"

subsection \<open>SciPy filters\<close>

text \<open>
  \<open>scipy.signal.butter\<close> and \<open>scipy.signal.filtfilt\<close> are library code outside the
  repository; the model takes them as parameters. \<open>butter sig n (lo, hi) fs\<close> stands
  for \<open>signal.butter(n, [lo, hi], btype='band', fs=fs)\<close> and returns the coefficient
  lists \<open>(b, a)\<close>; \<open>filtfilt sig b a x\<close> stands for \<open>signal.filtfilt(b, a, x)\<close>.
  Either may raise.
\<close>

record scipy_signal =
  butter :: "nat \<Rightarrow> real \<times> real \<Rightarrow> int \<Rightarrow> py_error + (real list \<times> real list)"
  filtfilt :: "real list \<Rightarrow> real list \<Rightarrow> real list \<Rightarrow> py_error + real list"

text \<open>\<open>scipy.signal.square(t)\<close> with the default duty cycle: period \<open>2\<pi>\<close>, \<open>+1\<close> on the first half.\<close>

definition square :: "real \<Rightarrow> real" where
  "square t = (if t - 2 * pi * real_of_int \<lfloor>t / (2 * pi)\<rfloor> < pi then 1 else - 1)"

subsection \<open>The transformation methods\<close>

definition pitch_shift_audio :: "real list \<Rightarrow> real \<Rightarrow> py_error + real list" where
  "pitch_shift_audio audio_data shift_factor =
     (if shift_factor = 1 then Inr audio_data
      else let original_length = length audio_data
           in if shift_factor = 0 then Inl ZeroDivisionError
              else let new_length = py_int (real original_length / shift_factor)
                   in case linspace 0 (real original_length - 1) new_length True of
                        Inl e \<Rightarrow> Inl e
                      | Inr indices \<Rightarrow>
                          (case interp_arange indices audio_data of
                             Inl e \<Rightarrow> Inl e
                           | Inr shifted_audio \<Rightarrow>
                               if length shifted_audio > original_length
                               then Inr (take original_length shifted_audio)
                               else Inr (shifted_audio
                                          @ replicate (original_length - length shifted_audio) 0)))"

text \<open>
  The loop of \<open>apply_formant_shift\<close> over \<open>enumerate(freqs)\<close>: each bin of positive
  frequency is written to bin \<open>int(i * shift_factor)\<close> when that index is below the
  length.
\<close>

fun remap_bins :: "complex list \<Rightarrow> real \<Rightarrow> (nat \<times> real) list \<Rightarrow> complex list
    \<Rightarrow> py_error + complex list" where
  "remap_bins fft shift_factor [] shifted_fft = Inr shifted_fft"
| "remap_bins fft shift_factor ((i, freq) # rest) shifted_fft =
     (if freq > 0
      then let new_freq_idx = py_int (real i * shift_factor)
           in if new_freq_idx < int (length shifted_fft)
              then (case setitem shifted_fft new_freq_idx (fft ! i) of
                      Inl e \<Rightarrow> Inl e
                    | Inr shifted_fft' \<Rightarrow> remap_bins fft shift_factor rest shifted_fft')
              else remap_bins fft shift_factor rest shifted_fft
      else remap_bins fft shift_factor rest shifted_fft)"

definition apply_formant_shift :: "audio_processor \<Rightarrow> real list \<Rightarrow> real \<Rightarrow> py_error + real list" where
  "apply_formant_shift s audio_data shift_factor =
     (if shift_factor = 1 then Inr audio_data
      else case np_fft (map complex_of_real audio_data) of
             Inl e \<Rightarrow> Inl e
           | Inr fft \<Rightarrow>
               (case fftfreq (length audio_data) (sample_rate s) of
                  Inl e \<Rightarrow> Inl e
                | Inr freqs \<Rightarrow>
                    (case remap_bins fft shift_factor (zip [0..<length freqs] freqs)
                            (replicate (length fft) 0) of
                       Inl e \<Rightarrow> Inl e
                     | Inr shifted_fft \<Rightarrow>
                         (case np_ifft shifted_fft of
                            Inl e \<Rightarrow> Inl e
                          | Inr y \<Rightarrow> Inr (map Re y)))))"

text \<open>
  \<open>apply_robot_effect\<close>: the block times a 200 Hz square wave times 0.5, then a
  fourth-order 300--3000 Hz band-pass applied forwards and backwards. (For
  \<open>sample_rate = 0\<close> NumPy's time axis is not finite; the real-valued carrier below
  does not describe that case.)
\<close>

definition apply_robot_effect :: "scipy_signal \<Rightarrow> audio_processor \<Rightarrow> real list
    \<Rightarrow> py_error + real list" where
  "apply_robot_effect sig s audio_data =
     (let t = map (\<lambda>i. real i / real_of_int (sample_rate s)) [0..<length audio_data];
          carrier = map (\<lambda>ti. square (2 * pi * 200 * ti)) t;
          modulated = map (\<lambda>(x, c). x * c * (5 / 10)) (zip audio_data carrier)
      in case butter sig 4 (300, 3000) (sample_rate s) of
           Inl e \<Rightarrow> Inl e
         | Inr (b, a) \<Rightarrow> filtfilt sig b a modulated)"

text \<open>The last step of \<open>transform_audio\<close>: scale to a peak of 0.8 unless the peak is 0.\<close>

definition normalize_peak :: "real list \<Rightarrow> py_error + real list" where
  "normalize_peak transformed =
     (case np_max (map abs transformed) of
        Inl e \<Rightarrow> Inl e
      | Inr max_val \<Rightarrow>
          if max_val > 0
          then (case np_divide transformed max_val of
                  Inl e \<Rightarrow> Inl e
                | Inr q \<Rightarrow> Inr (map (\<lambda>x. x * (8 / 10)) q))
          else Inr transformed)"

text \<open>
  \<open>transform_audio\<close> is modelled in two parts: \<open>transform_stages\<close> is the body up
  to the robot effect (the copy and the three conditional stages), and
  \<open>transform_audio\<close> passes its result to the normalization.
\<close>

definition transform_stages :: "scipy_signal \<Rightarrow> audio_processor \<Rightarrow> real list
    \<Rightarrow> py_error + real list" where
  "transform_stages sig s audio_data =
     (case (if pitch_shift s \<noteq> 1 then pitch_shift_audio audio_data (pitch_shift s)
            else Inr audio_data) of
        Inl e \<Rightarrow> Inl e
      | Inr t1 \<Rightarrow>
          (case (if formant_shift s \<noteq> 1 then apply_formant_shift s t1 (formant_shift s)
                 else Inr t1) of
             Inl e \<Rightarrow> Inl e
           | Inr t2 \<Rightarrow>
               if voice_profile s = ''robot'' then apply_robot_effect sig s t2 else Inr t2))"

definition transform_audio :: "scipy_signal \<Rightarrow> audio_processor \<Rightarrow> real list
    \<Rightarrow> py_error + real list" where
  "transform_audio sig s audio_data =
     (case transform_stages sig s audio_data of
        Inl e \<Rightarrow> Inl e
      | Inr transformed \<Rightarrow> normalize_peak transformed)"

subsection \<open>The capture callback\<close>




text \<open>
  A SciPy in which every call raises. It fills the \<open>scipy_signal\<close> argument when the
  code is evaluated on a path that never reaches a SciPy call.
\<close>

definition raising_signal :: scipy_signal where
  "raising_signal =
     \<lparr>butter = (\<lambda>n w fs. Inl ValueError), filtfilt = (\<lambda>b a x. Inl ValueError)\<rparr>"

section \<open>\<open>voice_profiles.py\<close>: the default profiles\<close>

record VoiceProfile =
  name :: string
  display_name :: string
  description :: string
  profile_pitch_shift :: real
  profile_formant_shift :: real
  special_effects :: "string list"
  emotion_modifiers :: "(string \<times> real) list"

definition default_profiles :: "VoiceProfile list" where
  "default_profiles =
     [\<lparr>name = ''original'', display_name = ''Original Voice'',
       description = ''No transformation applied'',
       profile_pitch_shift = 1, profile_formant_shift = 1,
       special_effects = [], emotion_modifiers = []\<rparr>,
      \<lparr>name = ''male_deep'', display_name = ''Deep Male Voice'',
       description = ''Transform to a deeper male voice'',
       profile_pitch_shift = 7 / 10, profile_formant_shift = 85 / 100,
       special_effects = [],
       emotion_modifiers = [(''confidence'', 12 / 10), (''authority'', 13 / 10)]\<rparr>,
      \<lparr>name = ''female_high'', display_name = ''High Female Voice'',
       description = ''Transform to a higher female voice'',
       profile_pitch_shift = 14 / 10, profile_formant_shift = 115 / 100,
       special_effects = [],
       emotion_modifiers = [(''friendliness'', 12 / 10), (''enthusiasm'', 11 / 10)]\<rparr>,
      \<lparr>name = ''child'', display_name = ''Child Voice'',
       description = ''Transform to sound like a child'',
       profile_pitch_shift = 16 / 10, profile_formant_shift = 125 / 100,
       special_effects = [''brightness''],
       emotion_modifiers = [(''playfulness'', 15 / 10), (''innocence'', 13 / 10)]\<rparr>,
      \<lparr>name = ''elderly'', display_name = ''Elderly Voice'',
       description = ''Transform to sound like an elderly person'',
       profile_pitch_shift = 9 / 10, profile_formant_shift = 95 / 100,
       special_effects = [''tremolo'', ''roughness''],
       emotion_modifiers = [(''wisdom'', 13 / 10), (''calmness'', 12 / 10)]\<rparr>,
      \<lparr>name = ''robot'', display_name = ''Robot Voice'',
       description = ''Robotic voice transformation'',
       profile_pitch_shift = 1, profile_formant_shift = 1,
       special_effects = [''vocoder'', ''metallic''],
       emotion_modifiers = [(''monotone'', 2)]\<rparr>,
      \<lparr>name = ''alien'', display_name = ''Alien Voice'',
       description = ''Otherworldly alien voice'',
       profile_pitch_shift = 12 / 10, profile_formant_shift = 13 / 10,
       special_effects = [''reverb'', ''chorus'', ''pitch_modulation''],
       emotion_modifiers = [(''mystery'', 15 / 10), (''otherworldly'', 2)]\<rparr>,
      \<lparr>name = ''monster'', display_name = ''Monster Voice'',
       description = ''Scary monster voice'',
       profile_pitch_shift = 6 / 10, profile_formant_shift = 8 / 10,
       special_effects = [''distortion'', ''growl''],
       emotion_modifiers = [(''intimidation'', 2), (''fear'', 18 / 10)]\<rparr>,
      \<lparr>name = ''whisper'', display_name = ''Whisper Voice'',
       description = ''Soft whisper transformation'',
       profile_pitch_shift = 95 / 100, profile_formant_shift = 105 / 100,
       special_effects = [''noise_reduction'', ''softness''],
       emotion_modifiers = [(''intimacy'', 15 / 10), (''secrecy'', 13 / 10)]\<rparr>,
      \<lparr>name = ''announcer'', display_name = ''Radio Announcer'',
       description = ''Professional radio announcer voice'',
       profile_pitch_shift = 85 / 100, profile_formant_shift = 9 / 10,
       special_effects = [''compression'', ''eq_boost''],
       emotion_modifiers = [(''professionalism'', 15 / 10), (''clarity'', 14 / 10)]\<rparr>]"

text \<open>
  \<open>_load_default_profiles\<close> stores each default under its name, in order, into the
  manager's dictionary; \<open>get_profile\<close> raises \<open>KeyError\<close> for a missing name.
\<close>

definition load_default_profiles :: "string \<rightharpoonup> VoiceProfile" where
  "load_default_profiles = foldl (\<lambda>m p. m(name p \<mapsto> p)) Map.empty default_profiles"

definition get_profile :: "(string \<rightharpoonup> VoiceProfile) \<Rightarrow> string \<Rightarrow> py_error + VoiceProfile" where
  "get_profile m n = (case m n of None \<Rightarrow> Inl KeyError | Some p \<Rightarrow> Inr p)"

section \<open>\<open>advanced_effects.py\<close>\<close>

subsection \<open>\<open>EmotionModulator._apply_eq\<close>\<close>




subsection \<open>\<open>EnvironmentalEffects.apply_echo\<close>\<close>




section \<open>\<open>watermark.py\<close>: class \<open>AudioWatermark\<close>\<close>

record audio_watermark =
  wm_sample_rate :: int
  watermark_freq :: real
  watermark_amplitude :: real
  watermark_duration :: real

definition init_watermark :: "int \<Rightarrow> audio_watermark" where
  "init_watermark sr =
     \<lparr>wm_sample_rate = sr, watermark_freq = 19000, watermark_amplitude = 1 / 1000,
      watermark_duration = 1 / 10\<rparr>"

text \<open>
  A metadata dictionary, keys to values. What the code takes from outside is a
  parameter: \<open>md5_prefix items\<close> stands for
  \<open>int(hashlib.md5(str(sorted(items)).encode()).hexdigest()[:4], 16)\<close> and \<open>now\<close> for
  \<open>int(time.time())\<close>.
\<close>

datatype py_value = PyInt int | PyStr string

type_synonym metadata = "(string \<times> py_value) list"

record wm_env =
  md5_prefix :: "metadata \<Rightarrow> nat"
  now :: int

text \<open>A fixed outside world for evaluating the code: hash prefix 0, clock 0.\<close>

definition zero_env :: wm_env where
  "zero_env = \<lparr>md5_prefix = (\<lambda>m. 0), now = 0\<rparr>"

definition generate_watermark_signal :: "audio_watermark \<Rightarrow> wm_env \<Rightarrow> real \<Rightarrow> metadata option
    \<Rightarrow> py_error + real list" where
  "generate_watermark_signal wm env duration md =
     (let num_samples = py_int (duration * real_of_int (wm_sample_rate wm))
      in case linspace 0 duration num_samples False of
           Inl e \<Rightarrow> Inl e
         | Inr t \<Rightarrow>
             let base_freq =
                   (case md of
                      None \<Rightarrow> watermark_freq wm
                    | Some m \<Rightarrow>
                        if m = [] then watermark_freq wm
                        else watermark_freq wm + real (md5_prefix env m mod 100))
             in Inr (map (\<lambda>ti. sin (2 * pi * base_freq * ti + sin (2 * pi * 50 * ti) * (1 / 10))
                                 * watermark_amplitude wm) t))"

definition embed_watermark :: "audio_watermark \<Rightarrow> wm_env \<Rightarrow> real list \<Rightarrow> metadata option
    \<Rightarrow> py_error + real list" where
  "embed_watermark wm env audio_data md =
     (if length audio_data = 0 then Inr audio_data
      else let md1 = (case md of
                        None \<Rightarrow> [(''timestamp'', PyInt (now env)),
                                  (''type'', PyStr ''voice_transformed''),
                                  (''version'', PyStr ''1.0'')]
                      | Some m \<Rightarrow> m)
           in if wm_sample_rate wm = 0 then Inl ZeroDivisionError
              else let duration = real (length audio_data) / real_of_int (wm_sample_rate wm)
                   in case generate_watermark_signal wm env duration (Some md1) of
                        Inl e \<Rightarrow> Inl e
                      | Inr watermark \<Rightarrow>
                          (case (if length watermark > length audio_data
                                 then Inr (take (length audio_data) watermark)
                                 else if length watermark < length audio_data
                                 then (if length watermark = 0 then Inl ZeroDivisionError
                                       else let repeats = nat \<lceil>real (length audio_data)
                                                                / real (length watermark)\<rceil>
                                            in Inr (take (length audio_data)
                                                      (concat (replicate repeats watermark))))
                                 else Inr watermark) of
                             Inl e \<Rightarrow> Inl e
                           | Inr watermark' \<Rightarrow>
                               let watermarked_audio =
                                     map (\<lambda>(x, w). x + w) (zip audio_data watermark')
                               in case np_max (map abs watermarked_audio) of
                                    Inl e \<Rightarrow> Inl e
                                  | Inr max_val \<Rightarrow>
                                      if max_val > 1
                                      then Inr (map (\<lambda>x. x / max_val * (95 / 100))
                                                  watermarked_audio)
                                      else Inr watermarked_audio))"




section \<open>Properties of the NumPy operations\<close>

lemma foldl_max_ge_init: "x \<le> foldl max x xs" for x :: real
  by (induction xs arbitrary: x) (auto intro: order_trans [OF max.cobounded1])

lemma foldl_max_ge_elem: "y \<in> set xs \<Longrightarrow> y \<le> foldl max x xs" for x :: real
proof (induction xs arbitrary: x)
  case Nil
  then show ?case by simp
next
  case (Cons a xs)
  then show ?case
    using foldl_max_ge_init [of "max x a" xs] by auto
qed

lemma foldl_max_mem: "foldl max x xs \<in> set (x # xs)" for x :: real
proof (induction xs arbitrary: x)
  case Nil
  then show ?case by simp
next
  case (Cons a xs)
  have ih: "foldl max (max x a) xs \<in> set (max x a # xs)" by (rule Cons.IH)
  have "max x a = x \<or> max x a = a" by (simp add: max_def)
  then show ?case
  proof
    assume "max x a = x"
    with ih show ?thesis by auto
  next
    assume "max x a = a"
    with ih show ?thesis by auto
  qed
qed

lemma np_max_upper: "np_max xs = Inr m \<Longrightarrow> x \<in> set xs \<Longrightarrow> x \<le> m"
  by (cases xs) (auto simp: foldl_max_ge_init foldl_max_ge_elem)

lemma np_max_mem: "np_max xs = Inr m \<Longrightarrow> m \<in> set xs"
  using foldl_max_mem by (cases xs) auto

lemma np_max_Max: "xs \<noteq> [] \<Longrightarrow> np_max xs = Inr (Max (set xs))"
proof -
  assume ne: "xs \<noteq> []"
  then obtain m where m: "np_max xs = Inr m"
    by (cases xs) auto
  have "Max (set xs) = m"
    using np_max_mem [OF m] np_max_upper [OF m] by (intro Max_eqI) auto
  with m show ?thesis by simp
qed

lemma setitem_length: "setitem a i v = Inr b \<Longrightarrow> length b = length a"
  by (auto simp: setitem_def Let_def split: if_splits)

lemma setitem_in_range:
  "0 \<le> i \<Longrightarrow> i < int (length a) \<Longrightarrow> setitem a i v = Inr (a[nat i := v])"
  by (simp add: setitem_def Let_def)

lemma py_int_nonneg: "0 \<le> r \<Longrightarrow> 0 \<le> py_int r"
  by (simp add: py_int_def)

section \<open>Properties of the transformation methods\<close>

lemma normalize_peak_length: "normalize_peak t = Inr ys \<Longrightarrow> length ys = length t"
  by (auto simp: normalize_peak_def np_divide_def comp_def split: sum.splits if_splits)

lemma normalize_peak_bound:
  assumes "normalize_peak t = Inr ys" and "y \<in> set ys"
  shows "\<bar>y\<bar> \<le> 8 / 10"
proof -
  obtain m where m: "np_max (map abs t) = Inr m"
    using assms(1) by (auto simp: normalize_peak_def np_divide_def comp_def split: sum.splits)
  have up: "\<bar>x\<bar> \<le> m" if "x \<in> set t" for x
    using np_max_upper [OF m, of "\<bar>x\<bar>"] that by simp
  show ?thesis
  proof (cases "m > 0")
    case True
    then have "ys = map (\<lambda>x. x / m * (8 / 10)) t"
      using assms(1) m by (simp add: normalize_peak_def np_divide_def comp_def)
    then obtain x where x: "x \<in> set t" "y = x / m * (8 / 10)"
      using assms(2) by auto
    have "\<bar>x / m\<bar> \<le> 1"
      using up [OF x(1)] True by simp
    then show ?thesis
      by (simp add: x(2) abs_mult)
  next
    case False
    then have "ys = t"
      using assms(1) m by (simp add: normalize_peak_def np_divide_def comp_def)
    then have "\<bar>y\<bar> \<le> m"
      using up assms(2) by simp
    with False show ?thesis by simp
  qed
qed

lemma normalize_peak_zero:
  assumes "np_max (map abs t) = Inr m" and "m \<le> 0"
  shows "normalize_peak t = Inr t" and "\<forall>x\<in>set t. x = 0"
proof -
  show "normalize_peak t = Inr t"
    using assms by (simp add: normalize_peak_def np_divide_def comp_def)
  show "\<forall>x\<in>set t. x = 0"
  proof
    fix x assume "x \<in> set t"
    then have "\<bar>x\<bar> \<le> m"
      using np_max_upper [OF assms(1), of "\<bar>x\<bar>"] by simp
    with assms(2) show "x = 0" by simp
  qed
qed

lemma normalize_peak_finite: "normalize_peak t \<noteq> Inl NotFinite"
  by (cases t) (auto simp: normalize_peak_def np_divide_def)

lemma normalize_peak_total: "t \<noteq> [] \<Longrightarrow> \<exists>ys. normalize_peak t = Inr ys"
  by (cases t) (auto simp: normalize_peak_def np_divide_def comp_def)

lemma remap_bins_length:
  "remap_bins fft f ps sh = Inr out \<Longrightarrow> length out = length sh"
proof (induction fft f ps sh rule: remap_bins.induct)
  case (1 fft f sh)
  then show ?case by simp
next
  case (2 fft f i freq rest sh)
  then show ?case
    by (auto simp: Let_def setitem_length split: if_splits sum.splits)
qed

lemma remap_bins_total:
  assumes "0 \<le> f"
  shows "\<exists>out. remap_bins fft f ps sh = Inr out"
proof (induction ps arbitrary: sh)
  case Nil
  show ?case by simp
next
  case (Cons p ps)
  obtain i freq where p: "p = (i, freq)" by (cases p)
  have nonneg: "0 \<le> py_int (real i * f)"
    using assms by (simp add: py_int_nonneg)
  show ?case
    using Cons.IH nonneg by (simp add: p Let_def setitem_in_range)
qed

lemma pitch_shift_audio_length:
  "pitch_shift_audio xs f = Inr ys \<Longrightarrow> length ys = length xs"
  by (auto simp: pitch_shift_audio_def Let_def split: if_splits sum.splits)

lemma pitch_shift_audio_total:
  assumes "xs \<noteq> []" and "0 < f"
  shows "\<exists>ys. pitch_shift_audio xs f = Inr ys"
proof -
  have "0 \<le> py_int (real (length xs) / f)"
    using assms(2) by (simp add: py_int_nonneg)
  then show ?thesis
    using assms by (simp add: pitch_shift_audio_def linspace_def interp_arange_def Let_def)
qed

lemma apply_formant_shift_length:
  "apply_formant_shift s xs f = Inr ys \<Longrightarrow> length ys = length xs"
  by (auto simp: apply_formant_shift_def np_fft_def np_ifft_def dft_def idft_def
        dest!: remap_bins_length split: if_splits sum.splits)

lemma apply_formant_shift_total:
  assumes "xs \<noteq> []" and "0 \<le> f" and "sample_rate s \<noteq> 0"
  shows "\<exists>ys. apply_formant_shift s xs f = Inr ys"
proof (cases "f = 1")
  case True
  then show ?thesis by (simp add: apply_formant_shift_def)
next
  case False
  define fft where "fft = dft (map complex_of_real xs)"
  have ff: "np_fft (map complex_of_real xs) = Inr fft"
    using assms(1) by (simp add: np_fft_def fft_def)
  obtain freqs where fr: "fftfreq (length xs) (sample_rate s) = Inr freqs"
    using assms(3) by (simp add: fftfreq_def)
  obtain out where out: "remap_bins fft f (zip [0..<length freqs] freqs)
      (replicate (length fft) 0) = Inr out"
    using remap_bins_total [OF assms(2)] by blast
  have "length out = length xs"
    using remap_bins_length [OF out] by (simp add: fft_def dft_def)
  then have "out \<noteq> []"
    using assms(1) by auto
  then show ?thesis
    using False by (simp add: apply_formant_shift_def ff fr out np_ifft_def)
qed

text \<open>
  SciPy documents \<open>filtfilt\<close> as returning an array of the shape of its input; for
  the robot profile the length of the result rests on that.
\<close>

lemma transform_stages_length:
  assumes "transform_stages sig s xs = Inr t"
    and "voice_profile s = ''robot'' \<Longrightarrow>
           (\<And>b a x y. filtfilt sig b a x = Inr y \<Longrightarrow> length y = length x)"
  shows "length t = length xs"
proof -
  obtain t1 where t1: "(if pitch_shift s \<noteq> 1 then pitch_shift_audio xs (pitch_shift s)
      else Inr xs) = Inr t1"
    using assms(1) by (auto simp: transform_stages_def split: sum.splits)
  obtain t2 where t2: "(if formant_shift s \<noteq> 1 then apply_formant_shift s t1 (formant_shift s)
      else Inr t1) = Inr t2"
    using assms(1) t1 by (auto simp: transform_stages_def split: sum.splits)
  have l1: "length t1 = length xs"
    using t1 pitch_shift_audio_length by (auto split: if_splits)
  have l2: "length t2 = length t1"
    using t2 apply_formant_shift_length by (auto split: if_splits)
  have t3: "(if voice_profile s = ''robot'' then apply_robot_effect sig s t2 else Inr t2) = Inr t"
    using assms(1) t1 t2 by (simp add: transform_stages_def)
  have "length t = length t2"
  proof (cases "voice_profile s = ''robot''")
    case True
    then obtain b a where "filtfilt sig b a
        (map (\<lambda>(x, c). x * c * (5 / 10))
           (zip t2 (map (\<lambda>ti. square (2 * pi * 200 * ti))
              (map (\<lambda>i. real i / real_of_int (sample_rate s)) [0..<length t2])))) = Inr t"
      using t3 by (auto simp: apply_robot_effect_def Let_def split: sum.splits)
    from assms(2) [OF True this] show ?thesis by simp
  next
    case False
    with t3 show ?thesis by simp
  qed
  with l1 l2 show ?thesis by simp
qed

lemma transform_audio_length:
  assumes "transform_audio sig s xs = Inr ys"
    and "voice_profile s = ''robot'' \<Longrightarrow>
           (\<And>b a x y. filtfilt sig b a x = Inr y \<Longrightarrow> length y = length x)"
  shows "length ys = length xs"
proof -
  obtain t where t: "transform_stages sig s xs = Inr t" and n: "normalize_peak t = Inr ys"
    using assms(1) by (auto simp: transform_audio_def split: sum.splits)
  show ?thesis
    using transform_stages_length [OF t assms(2)] normalize_peak_length [OF n] by simp
qed

lemma transform_audio_total:
  assumes "xs \<noteq> []" and "0 < pitch_shift s" and "0 \<le> formant_shift s"
    and "formant_shift s \<noteq> 1 \<Longrightarrow> sample_rate s \<noteq> 0" and "voice_profile s \<noteq> ''robot''"
  shows "\<exists>ys. transform_audio sig s xs = Inr ys \<and> length ys = length xs"
proof -
  obtain t1 where t1: "(if pitch_shift s \<noteq> 1 then pitch_shift_audio xs (pitch_shift s)
      else Inr xs) = Inr t1"
    using pitch_shift_audio_total [OF assms(1,2)] by (cases "pitch_shift s = 1") auto
  have l1: "length t1 = length xs"
    using t1 pitch_shift_audio_length by (auto split: if_splits)
  then have ne1: "t1 \<noteq> []"
    using assms(1) by auto
  obtain t2 where t2: "(if formant_shift s \<noteq> 1 then apply_formant_shift s t1 (formant_shift s)
      else Inr t1) = Inr t2"
    using apply_formant_shift_total [OF ne1 assms(3)] assms(4)
    by (cases "formant_shift s = 1") auto
  have l2: "length t2 = length t1"
    using t2 apply_formant_shift_length by (auto split: if_splits)
  then have ne2: "t2 \<noteq> []"
    using ne1 by auto
  have st: "transform_stages sig s xs = Inr t2"
    using t1 t2 assms(5) by (simp add: transform_stages_def)
  obtain ys where ys: "normalize_peak t2 = Inr ys"
    using normalize_peak_total [OF ne2] by blast
  have "transform_audio sig s xs = Inr ys"
    using st ys by (simp add: transform_audio_def)
  moreover have "length ys = length xs"
    using normalize_peak_length [OF ys] l1 l2 by simp
  ultimately show ?thesis by blast
qed

lemma transform_audio_unit:
  assumes "pitch_shift s = 1" and "formant_shift s = 1" and "voice_profile s \<noteq> ''robot''"
  shows "transform_audio sig s xs = normalize_peak xs"
  using assms by (simp add: transform_audio_def transform_stages_def)

section \<open>Profile selection\<close>

lemma profile_names: "map fst profiles =
    [''original'', ''male'', ''female'', ''child'', ''robot'', ''elderly'']"
  by (simp add: profiles_def)

lemma unknown_profile_lookup:
  assumes "profile \<notin> {''original'', ''male'', ''female'', ''child'', ''robot'', ''elderly''}"
  shows "map_of profiles profile = None"
proof -
  have "profile \<notin> set (map fst profiles)"
    using assms by (simp only: profile_names) simp
  then show ?thesis
    by (simp add: map_of_eq_None_iff)
qed

lemma set_voice_profile_male:
  "voice_profile (set_voice_profile (init 44100 1024) ''male'') = ''male''"
  "pitch_shift (set_voice_profile (init 44100 1024) ''male'') = 8 / 10"
  "formant_shift (set_voice_profile (init 44100 1024) ''male'') = 9 / 10"
  by (simp_all add: set_voice_profile_def profiles_def init_def)

text \<open>
  Claim C9. Selecting a profile name outside
  \<open>{original, male, female, child, robot, elderly}\<close> stores the name and leaves
  \<open>pitch_shift\<close> and \<open>formant_shift\<close> (and every other field) as they were.
  \<open>set_voice_profile\<close> has no raising branch: it is a total function of the state.
\<close>

theorem set_voice_profile_unknown:
  assumes "profile \<notin> {''original'', ''male'', ''female'', ''child'', ''robot'', ''elderly''}"
  shows "set_voice_profile s profile = s\<lparr>voice_profile := profile\<rparr>
       \<and> voice_profile (set_voice_profile s profile) = profile
       \<and> pitch_shift (set_voice_profile s profile) = pitch_shift s
       \<and> formant_shift (set_voice_profile s profile) = formant_shift s"
  using unknown_profile_lookup [OF assms] by (simp add: set_voice_profile_def)

theorem set_voice_profile_unknown_witness:
  "''monster'' \<notin> {''original'', ''male'', ''female'', ''child'', ''robot'', ''elderly''}
   \<and> voice_profile (set_voice_profile (set_voice_profile (init 44100 1024) ''male'') ''monster'')
       = ''monster''
   \<and> pitch_shift (set_voice_profile (set_voice_profile (init 44100 1024) ''male'') ''monster'')
       = 8 / 10
   \<and> formant_shift (set_voice_profile (set_voice_profile (init 44100 1024) ''male'') ''monster'')
       = 9 / 10"
  using set_voice_profile_unknown
    [of "''monster''" "set_voice_profile (init 44100 1024) ''male''"]
  by (simp add: set_voice_profile_male)

lemma male_deep_default:
  "map_option profile_pitch_shift (load_default_profiles ''male_deep'') = Some (7 / 10)"
  "map_option profile_formant_shift (load_default_profiles ''male_deep'') = Some (85 / 100)"
  by (simp_all add: load_default_profiles_def default_profiles_def)

lemma foldl_max_replicate: "foldl max x (replicate n x) = x" for x :: real
  by (induction n) simp_all

lemma normalize_peak_replicate:
  assumes "0 < c"
  shows "normalize_peak (replicate (Suc n) c) = Inr (replicate (Suc n) (8 / 10))"
proof -
  have "np_max (map abs (replicate (Suc n) c)) = Inr c"
    using assms by (simp add: foldl_max_replicate)
  then show ?thesis
    using assms by (simp add: normalize_peak_def np_divide_def comp_def)
qed

text \<open>
  Claim C3. The processor's own table has no entry \<open>male_deep\<close>; that name, with
  pitch 0.7 and formant 0.85, exists only among the profile manager's defaults. On a
  new processor \<open>set_voice_profile\<close> with \<open>male_deep\<close> therefore leaves both factors
  at 1.0, and a 1024-sample block of samples 0.5 passes through \<open>transform_audio\<close>
  with neither shift applied: only the normalization to peak 0.8 acts on it.
\<close>

theorem male_deep_not_applied:
  "map_option profile_pitch_shift (load_default_profiles ''male_deep'') = Some (7 / 10)
   \<and> map_option profile_formant_shift (load_default_profiles ''male_deep'') = Some (85 / 100)
   \<and> pitch_shift (set_voice_profile (init 44100 1024) ''male_deep'') = 1
   \<and> formant_shift (set_voice_profile (init 44100 1024) ''male_deep'') = 1
   \<and> transform_audio raising_signal (set_voice_profile (init 44100 1024) ''male_deep'')
        (replicate 1024 (1 / 2))
       = Inr (replicate 1024 (8 / 10))"
proof -
  let ?s = "set_voice_profile (init 44100 1024) ''male_deep''"
  have s: "pitch_shift ?s = 1" "formant_shift ?s = 1" "voice_profile ?s \<noteq> ''robot''"
    by (simp_all add: set_voice_profile_def profiles_def init_def)
  have "replicate 1024 (1 / 2 :: real) = replicate (Suc 1023) (1 / 2)"
    and "replicate 1024 (8 / 10 :: real) = replicate (Suc 1023) (8 / 10)"
    by simp_all
  then have "normalize_peak (replicate 1024 (1 / 2)) = Inr (replicate 1024 (8 / 10))"
    using normalize_peak_replicate [of "1 / 2" 1023] by simp
  then have "transform_audio raising_signal ?s (replicate 1024 (1 / 2))
      = Inr (replicate 1024 (8 / 10))"
    by (simp only: transform_audio_unit [OF s])
  with s(1,2) male_deep_default show ?thesis by simp
qed

section \<open>Length and identity of the transformation\<close>

text \<open>
  Claim C1. The claim is that every block comes back with its length. For the empty
  block nothing comes back: every path of \<open>transform_audio\<close> reaches a NumPy call
  that raises on a zero-size array. On a new processor the exception comes from
  \<open>np.max\<close> in the normalization, after selecting \<open>male\<close> from \<open>np.interp\<close> in
  the pitch stage. (For non-empty blocks and positive factors a block of the same
  length is returned: \<open>transform_audio_total\<close>, \<open>transform_audio_length\<close>.)
\<close>

theorem transform_audio_empty_block:
  "transform_audio raising_signal (init 44100 1024) [] = Inl ValueError
   \<and> transform_audio raising_signal (set_voice_profile (init 44100 1024) ''male'') []
       = Inl ValueError"
  by (simp add: transform_audio_def transform_stages_def init_def normalize_peak_def np_divide_def comp_def
      set_voice_profile_def profiles_def pitch_shift_audio_def linspace_def
      interp_arange_def py_int_def)

lemma transform_audio_empty_raises:
  assumes "voice_profile s \<noteq> ''robot''"
  shows "\<exists>e. transform_audio sig s [] = Inl e"
  using assms
  by (auto simp: transform_audio_def transform_stages_def pitch_shift_audio_def
      apply_formant_shift_def np_fft_def linspace_def interp_arange_def py_int_def
      normalize_peak_def np_divide_def comp_def Let_def split: sum.splits)

text \<open>
  Claim C2, as stated: with both factors 1.0 the output equals the input. It does not:
  the normalization rescales the block \<open>[0.5]\<close> to \<open>[0.8]\<close>.
\<close>

theorem identity_counterexample:
  "transform_audio raising_signal (init 44100 1024) [1 / 2] = Inr [8 / 10]
   \<and> [8 / 10] \<noteq> [1 / 2 :: real]"
  by (simp add: transform_audio_def transform_stages_def init_def normalize_peak_def np_divide_def comp_def)

text \<open>
  Claim C2, amended. With both factors 1.0 and a profile other than \<open>robot\<close>, the
  pitch and the formant stage return their input without resampling, for every block
  (the empty one included, on which resampling would raise) and every sample rate, so
  the block reaches the normalization as it came in. For a non-empty block
  \<open>transform_audio\<close> then returns the input passed through the normalization alone:
  every sample divided by the peak (the largest absolute sample) and multiplied by
  0.8 when the peak is positive, the input itself when the peak is 0.
\<close>

theorem transform_audio_unit_factors:
  assumes "pitch_shift s = 1" and "formant_shift s = 1" and "voice_profile s \<noteq> ''robot''"
  shows "pitch_shift_audio xs (pitch_shift s) = Inr xs
       \<and> apply_formant_shift s xs (formant_shift s) = Inr xs
       \<and> transform_stages sig s xs = Inr xs
       \<and> (xs \<noteq> [] \<longrightarrow>
            transform_audio sig s xs
              = Inr (if Max (abs ` set xs) > 0
                     then map (\<lambda>x. x / Max (abs ` set xs) * (8 / 10)) xs else xs))"
proof -
  have stages: "pitch_shift_audio xs (pitch_shift s) = Inr xs"
    "apply_formant_shift s xs (formant_shift s) = Inr xs"
    "transform_stages sig s xs = Inr xs"
    using assms
    by (simp_all add: pitch_shift_audio_def apply_formant_shift_def transform_stages_def)
  have "transform_audio sig s xs
      = Inr (if Max (abs ` set xs) > 0
             then map (\<lambda>x. x / Max (abs ` set xs) * (8 / 10)) xs else xs)"
    if ne: "xs \<noteq> []"
  proof -
    have m: "np_max (map abs xs) = Inr (Max (abs ` set xs))"
      using np_max_Max [of "map abs xs"] ne by simp
    show ?thesis
      using ne
      by (simp add: transform_audio_unit [OF assms] normalize_peak_def np_divide_def
          comp_def m)
  qed
  with stages show ?thesis by simp
qed

theorem transform_audio_unit_factors_witness:
  "pitch_shift (init 44100 1024) = 1 \<and> formant_shift (init 44100 1024) = 1
   \<and> voice_profile (init 44100 1024) \<noteq> ''robot'' \<and> [1 / 4, - 1 / 2] \<noteq> ([] :: real list)
   \<and> pitch_shift_audio [] (pitch_shift (init 44100 1024)) = Inr []
   \<and> apply_formant_shift (init 44100 1024) [] (formant_shift (init 44100 1024)) = Inr []
   \<and> transform_stages raising_signal (init 44100 1024) [] = Inr []
   \<and> transform_stages raising_signal (init 44100 1024) [1 / 4, - 1 / 2] = Inr [1 / 4, - 1 / 2]
   \<and> transform_audio raising_signal (init 44100 1024) [1 / 4, - 1 / 2] = Inr [4 / 10, - 8 / 10]"
proof -
  have h: "pitch_shift (init 44100 1024) = 1" "formant_shift (init 44100 1024) = 1"
    "voice_profile (init 44100 1024) \<noteq> ''robot''"
    by (simp_all add: init_def)
  have ne: "[1 / 4, - 1 / 2] \<noteq> ([] :: real list)"
    by simp
  show ?thesis
    using transform_audio_unit_factors [OF h, of "[1 / 4, - 1 / 2]" raising_signal]
      transform_audio_unit_factors [OF h, of "[]" raising_signal] h ne
    by simp
qed

section \<open>Normalization\<close>

text \<open>
  Claim C5. Whatever block \<open>transform_audio\<close> returns, none of its samples exceeds
  1.0 in absolute value (the normalization scales to a peak of 0.8). When the block
  that reaches the normalization has maximum absolute value 0, the division is not
  carried out: that block, all zeros, is the result. The normalization never divides
  by zero, whatever block it is given.
\<close>

theorem transform_audio_peak:
  "(transform_audio sig s xs = Inr ys \<longrightarrow> (\<forall>y\<in>set ys. \<bar>y\<bar> \<le> 1))
   \<and> (transform_stages sig s xs = Inr t \<and> np_max (map abs t) = Inr 0
        \<longrightarrow> transform_audio sig s xs = Inr t \<and> (\<forall>x\<in>set t. x = 0))
   \<and> normalize_peak u \<noteq> Inl NotFinite"
proof (intro conjI impI)
  assume "transform_audio sig s xs = Inr ys"
  then obtain t' where "normalize_peak t' = Inr ys"
    by (auto simp: transform_audio_def split: sum.splits)
  then have "\<bar>y\<bar> \<le> 8 / 10" if "y \<in> set ys" for y
    using normalize_peak_bound that by blast
  then show "\<forall>y\<in>set ys. \<bar>y\<bar> \<le> 1"
    by fastforce
next
  assume a: "transform_stages sig s xs = Inr t \<and> np_max (map abs t) = Inr 0"
  then show "transform_audio sig s xs = Inr t"
    using normalize_peak_zero(1) [of t 0] by (simp add: transform_audio_def)
  from a show "\<forall>x\<in>set t. x = 0"
    using normalize_peak_zero(2) [of t 0] by simp
next
  show "normalize_peak u \<noteq> Inl NotFinite"
    by (rule normalize_peak_finite)
qed

theorem transform_audio_peak_witness:
  "transform_audio raising_signal (init 44100 1024) [1 / 4, - 1 / 2] = Inr [4 / 10, - 8 / 10]
   \<and> \<bar>4 / 10 :: real\<bar> \<le> 1 \<and> \<bar>- 8 / 10 :: real\<bar> \<le> 1
   \<and> transform_stages raising_signal (init 44100 1024) [0, 0] = Inr [0, 0]
   \<and> np_max (map abs [0, 0]) = Inr 0
   \<and> transform_audio raising_signal (init 44100 1024) [0, 0] = Inr [0, 0]
   \<and> normalize_peak [0, 0] \<noteq> Inl NotFinite"
proof -
  have a: "transform_audio raising_signal (init 44100 1024) [1 / 4, - 1 / 2]
      = Inr [4 / 10, - 8 / 10]"
    by (simp add: transform_audio_def transform_stages_def init_def normalize_peak_def
        np_divide_def comp_def)
  have b: "transform_stages raising_signal (init 44100 1024) [0, 0] = Inr [0, 0]"
    by (simp add: transform_stages_def init_def)
  have c: "np_max (map abs [0, 0 :: real]) = Inr 0"
    by simp
  show ?thesis
    using transform_audio_peak
      [of raising_signal "init 44100 1024" "[1 / 4, - 1 / 2]" "[4 / 10, - 8 / 10]"]
      transform_audio_peak [of raising_signal "init 44100 1024" "[0, 0]" _ "[0, 0]" "[0, 0]"]
      a b c
    by simp
qed

section \<open>The capture callback\<close>




section \<open>Bounds on the float range\<close>






section \<open>Parametric equalizer\<close>










section \<open>Echo\<close>








section \<open>Watermark\<close>



text \<open>
  Claim C10. \<open>embed_watermark\<close> returns an empty block as it is: the first test of the
  method returns before any watermark signal is generated or added, for every
  metadata argument and every sample rate, and nothing is raised.
\<close>

theorem embed_watermark_empty:
  "embed_watermark wm env [] md = Inr []"
  by (simp add: embed_watermark_def)

theorem embed_watermark_empty_witness:
  "embed_watermark (init_watermark 44100) zero_env [] None = Inr []"
  using embed_watermark_empty [of "init_watermark 44100" zero_env None] .

end
